theory Spec2Isabelle
  imports Complex_Main
begin

section \<open>Python values used by TravelAgent.py\<close>

text \<open>
  A Python \<open>str\<close> is modelled as a HOL \<open>string\<close> whose characters are the code points
  U+0000 .. U+00FF (Latin-1), one \<open>char\<close> per code point. On this range \<open>str.lower()\<close>
  and \<open>str.strip()\<close> work character by character, as defined below: \<open>lower\<close> shifts
  A-Z and the accented capitals U+00C0 .. U+00DE (without the multiplication sign U+00D7)
  by 32, and \<open>strip\<close> removes the characters for which \<open>str.isspace\<close> holds from both ends.
\<close>

definition lower_char :: "char \<Rightarrow> char" where
  "lower_char c =
     (let n = (of_char c :: nat) in
      if (65 \<le> n \<and> n \<le> 90) \<or> (192 \<le> n \<and> n \<le> 214) \<or> (216 \<le> n \<and> n \<le> 222)
      then char_of (n + 32) else c)"

definition lower :: "string \<Rightarrow> string" where
  "lower s = map lower_char s"

definition is_space :: "char \<Rightarrow> bool" where
  "is_space c =
     (let n = (of_char c :: nat) in
      (9 \<le> n \<and> n \<le> 13) \<or> (28 \<le> n \<and> n \<le> 32) \<or> n = 133 \<or> n = 160)"

definition strip :: "string \<Rightarrow> string" where
  "strip s = rev (dropWhile is_space (rev (dropWhile is_space s)))"

text \<open>\<open>sep.join(xs)\<close> for a list of strings.\<close>

fun join :: "string \<Rightarrow> string list \<Rightarrow> string" where
  "join sep [] = []"
| "join sep [x] = x"
| "join sep (x # y # ys) = x @ sep @ join sep (y # ys)"

text \<open>
  Exceptions. Each constructor carries the exception's argument; \<open>str_exn\<close> is \<open>str(e)\<close>,
  which for a \<open>KeyError\<close> is the \<open>repr\<close> of its argument and for the others the message.
  \<open>OtherError\<close> stands for any exception class that is none of the named ones (it is
  caught by \<open>except Exception\<close> only).
\<close>

datatype exn =
    KeyError string
  | IndexError string
  | OverflowError string
  | AttributeError string
  | TypeError string
  | ResponseError string
  | OtherError string

definition apostrophe :: char where
  "apostrophe = CHR 0x27"

definition dquote :: char where
  "dquote = CHR 0x22"

definition backslash :: char where
  "backslash = CHR 0x5C"

definition hex_digit :: "nat \<Rightarrow> char" where
  "hex_digit n = (if n < 10 then char_of (48 + n) else char_of (87 + n))"

definition printable :: "char \<Rightarrow> bool" where
  "printable c =
     (let n = (of_char c :: nat) in
      \<not> (n < 32 \<or> (127 \<le> n \<and> n \<le> 160) \<or> n = 173))"

definition repr_char :: "char \<Rightarrow> char \<Rightarrow> string" where
  "repr_char quote c =
     (if c = quote \<or> c = backslash then [backslash, c]
      else if c = CHR 0x09 then [backslash, CHR ''t'']
      else if c = CHR 0x0A then [backslash, CHR ''n'']
      else if c = CHR 0x0D then [backslash, CHR ''r'']
      else if printable c then [c]
      else (let n = (of_char c :: nat) in
            [backslash, CHR ''x'', hex_digit (n div 16), hex_digit (n mod 16)]))"

definition repr :: "string \<Rightarrow> string" where
  "repr s =
     (let quote = (if apostrophe \<in> set s \<and> dquote \<notin> set s then dquote else apostrophe)
      in [quote] @ concat (map (repr_char quote) s) @ [quote])"

fun str_exn :: "exn \<Rightarrow> string" where
  "str_exn (KeyError m) = repr m"
| "str_exn (IndexError m) = m"
| "str_exn (OverflowError m) = m"
| "str_exn (AttributeError m) = m"
| "str_exn (TypeError m) = m"
| "str_exn (ResponseError m) = m"
| "str_exn (OtherError m) = m"

section \<open>Airport resolution: \<open>find_iata\<close>\<close>

text \<open>
  \<open>airports = airportsdata.load('IATA')\<close> is a dict from IATA code to a record dict. The
  model keeps its items in iteration order; of a record only the string field \<open>city\<close> is
  read, through \<open>info.get('city', '')\<close>, so a record is a map from field name to string.
\<close>

type_synonym airport_info = "string \<rightharpoonup> string"

type_synonym airport_table = "(string \<times> airport_info) list"

definition dict_get :: "('k \<rightharpoonup> 'v) \<Rightarrow> 'k \<Rightarrow> 'v \<Rightarrow> 'v" where
  "dict_get d k dflt = (case d k of None \<Rightarrow> dflt | Some v \<Rightarrow> v)"

text \<open>The \<open>for code, info in airports.items()\<close> loop; \<open>None\<close> when it runs to its end.\<close>

fun find_iata_loop :: "airport_table \<Rightarrow> string \<Rightarrow> string option" where
  "find_iata_loop [] city_lower = None"
| "find_iata_loop ((code, info) # rest) city_lower =
     (if lower (dict_get info ''city'' []) = city_lower then Some code
      else find_iata_loop rest city_lower)"

definition find_iata :: "airport_table \<Rightarrow> string \<Rightarrow> exn + string" where
  "find_iata airports city_name =
     (let city_lower = lower (strip city_name) in
      case find_iata_loop airports city_lower of
        Some code \<Rightarrow> Inr code
      | None \<Rightarrow> Inl (KeyError (''No IATA code found for city '' @ [apostrophe] @ city_name
                               @ [apostrophe])))"

section \<open>Dates\<close>

text \<open>
  A \<open>datetime.date\<close> is modelled by its proleptic Gregorian ordinal (\<open>date.toordinal()\<close>):
  \<open>date.min\<close> is 1 and \<open>date.max\<close>, 9999-12-31, is 3652059. Dates compare as their ordinals
  do. \<open>date + timedelta(days=n)\<close> raises \<open>OverflowError\<close> when the result leaves that range.
\<close>

type_synonym date = int

definition MAXORDINAL :: int where
  "MAXORDINAL = 3652059"

definition valid_date :: "date \<Rightarrow> bool" where
  "valid_date d = (1 \<le> d \<and> d \<le> MAXORDINAL)"

definition date_add :: "date \<Rightarrow> int \<Rightarrow> exn + date" where
  "date_add d days =
     (let ordinal = d + days in
      if 0 < ordinal \<and> ordinal \<le> MAXORDINAL then Inr ordinal
      else Inl (OverflowError ''date value out of range''))"

text \<open>\<open>req.start_date + timedelta(days=n)\<close> on an \<open>Optional[date]\<close>.\<close>

definition opt_date_add :: "date option \<Rightarrow> int \<Rightarrow> exn + date" where
  "opt_date_add od days =
     (case od of
        None \<Rightarrow> Inl (TypeError ''unsupported operand type(s) for +'')
      | Some d \<Rightarrow> date_add d days)"

text \<open>\<open>str(date)\<close>, that is \<open>date.isoformat()\<close>: the ordinal to year, month and day, then
  \<open>"%04d-%02d-%02d"\<close>.\<close>

definition DAYS_BEFORE_MONTH :: "int list" where
  "DAYS_BEFORE_MONTH = [-1, 0, 31, 59, 90, 120, 151, 181, 212, 243, 273, 304, 334]"

definition DAYS_IN_MONTH :: "int list" where
  "DAYS_IN_MONTH = [-1, 31, 28, 31, 30, 31, 30, 31, 31, 30, 31, 30, 31]"

definition ord2ymd :: "int \<Rightarrow> int \<times> int \<times> int" where
  "ord2ymd ordinal =
     (let n = ordinal - 1;
          n400 = n div 146097; n = n mod 146097;
          n100 = n div 36524; n = n mod 36524;
          n4 = n div 1461; n = n mod 1461;
          n1 = n div 365; n = n mod 365;
          year = n400 * 400 + 1 + n100 * 100 + n4 * 4 + n1
      in if n1 = 4 \<or> n100 = 4 then (year - 1, 12, 31)
         else
           (let leapyear = (n1 = 3 \<and> (n4 \<noteq> 24 \<or> n100 = 3));
                month = (n + 50) div 32;
                preceding = DAYS_BEFORE_MONTH ! nat month
                              + (if month > 2 \<and> leapyear then 1 else 0)
            in if preceding > n
               then (let month = month - 1;
                         preceding = preceding - (DAYS_IN_MONTH ! nat month
                                       + (if month = 2 \<and> leapyear then 1 else 0))
                     in (year, month, n - preceding + 1))
               else (year, month, n - preceding + 1)))"

fun dec :: "nat \<Rightarrow> string" where
  "dec n = (if n < 10 then [char_of (48 + n)] else dec (n div 10) @ [char_of (48 + n mod 10)])"

definition zero_pad :: "nat \<Rightarrow> int \<Rightarrow> string" where
  "zero_pad width i =
     (let digits = dec (nat i) in replicate (width - length digits) CHR ''0'' @ digits)"

definition isoformat :: "date \<Rightarrow> string" where
  "isoformat d =
     (case ord2ymd d of
        (year, month, day) \<Rightarrow> zero_pad 4 year @ ''-'' @ zero_pad 2 month @ ''-'' @ zero_pad 2 day)"

definition str_opt_date :: "date option \<Rightarrow> string" where
  "str_opt_date od = (case od of None \<Rightarrow> ''None'' | Some d \<Rightarrow> isoformat d)"

section \<open>The request and the effects of a run\<close>

text \<open>The pydantic model \<open>UserRequest\<close>. The value of \<open>budget\<close> is a Python float that no
  function reads; the model carries it as a real number.\<close>

record UserRequest =
  origin :: string
  destination :: string
  start_date :: "date option"
  end_date :: "date option"
  budget :: "real option"
  interests :: "string list option"

text \<open>The keyword arguments of \<open>amadeus.shopping.flight_offers_search.get\<close>.\<close>

record flight_params =
  originLocationCode :: string
  destinationLocationCode :: string
  departureDate :: string
  returnDate :: string
  adults :: int
  max_offers :: int

text \<open>
  What a run does to the outside, in order: log records, console input and output, and
  one entry for each call to an external collaborator with the arguments it was given.
\<close>

datatype level = INFO | WARNING | ERROR

datatype effect =
    Log level string
  | Input string
  | Print string
  | AgentRun string string string
  | ClientInit "string option" "string option"
  | FlightOffersSearch flight_params
  | RequestsGet string "(string \<times> string) list"
  | Geocode string

text \<open>A computation yields the effects it performed and either the exception it raised
  or its value.\<close>

type_synonym 'a io = "effect list \<times> (exn + 'a)"

definition return_io :: "'a \<Rightarrow> 'a io" where
  "return_io a = ([], Inr a)"

definition lift_io :: "exn + 'a \<Rightarrow> 'a io" where
  "lift_io r = ([], r)"

definition emit :: "effect \<Rightarrow> unit io" where
  "emit ev = ([ev], Inr ())"

definition bind_io :: "'a io \<Rightarrow> ('a \<Rightarrow> 'b io) \<Rightarrow> 'b io" where
  "bind_io m f =
     (case m of
        (t, Inl e) \<Rightarrow> (t, Inl e)
      | (t, Inr a) \<Rightarrow> (case f a of (t', r) \<Rightarrow> (t @ t', r)))"

text \<open>\<open>try: m except C as e: h e\<close>, where \<open>handles\<close> tells the exceptions of class \<open>C\<close>.\<close>

definition catch_io :: "'a io \<Rightarrow> (exn \<Rightarrow> bool) \<Rightarrow> (exn \<Rightarrow> 'a io) \<Rightarrow> 'a io" where
  "catch_io m handles h =
     (case m of
        (t, Inl e) \<Rightarrow> (if handles e then (case h e of (t', r) \<Rightarrow> (t @ t', r)) else (t, Inl e))
      | (t, Inr a) \<Rightarrow> (t, Inr a))"

fun is_KeyError :: "exn \<Rightarrow> bool" where
  "is_KeyError (KeyError m) = True"
| "is_KeyError e = False"

fun is_ResponseError :: "exn \<Rightarrow> bool" where
  "is_ResponseError (ResponseError m) = True"
| "is_ResponseError e = False"

definition is_Exception :: "exn \<Rightarrow> bool" where
  "is_Exception e = True"

section \<open>Normalization: \<open>ensure_dates\<close>\<close>

text \<open>\<open>today\<close> is \<open>datetime.now().date()\<close>. The request is updated in place and returned;
  the model returns the updated record.\<close>

definition ensure_dates :: "date \<Rightarrow> UserRequest \<Rightarrow> UserRequest io" where
  "ensure_dates today req =
     bind_io
       (if start_date req = None then
          bind_io (lift_io (date_add today 14)) (\<lambda>d.
          bind_io (emit (Log INFO (''No start_date: defaulting to '' @ isoformat d))) (\<lambda>_.
          return_io (req\<lparr>start_date := Some d\<rparr>)))
        else return_io req) (\<lambda>req.
     bind_io
       (if end_date req = None then
          bind_io (lift_io (opt_date_add (start_date req) 7)) (\<lambda>d.
          bind_io (emit (Log INFO (''No end_date: defaulting to '' @ isoformat d))) (\<lambda>_.
          return_io (req\<lparr>end_date := Some d\<rparr>)))
        else return_io req) (\<lambda>req.
     return_io req))"

section \<open>External collaborators\<close>

text \<open>
  Provider payloads are JSON objects, modelled with one optional field for each key the
  code reads, \<open>None\<close> when the key is missing: subscripting \<open>d['k']\<close> then raises
  \<open>KeyError\<close> (\<open>getitem\<close>) and \<open>d.get('k', default)\<close> yields the default. A list
  subscripted with \<open>[0]\<close> may be empty (\<open>first\<close> raises \<open>IndexError\<close>). The values at
  the leaves are strings.
\<close>

definition getitem :: "string \<Rightarrow> 'a option \<Rightarrow> exn + 'a" where
  "getitem key field = (case field of None \<Rightarrow> Inl (KeyError key) | Some v \<Rightarrow> Inr v)"

definition first :: "'a list \<Rightarrow> exn + 'a" where
  "first xs = (case xs of [] \<Rightarrow> Inl (IndexError ''list index out of range'') | x # _ \<Rightarrow> Inr x)"

text \<open>Evaluating one subexpression after the other, up to the first that raises.\<close>

definition bind_sum :: "exn + 'a \<Rightarrow> ('a \<Rightarrow> exn + 'b) \<Rightarrow> exn + 'b" where
  "bind_sum r f = (case r of Inl e \<Rightarrow> Inl e | Inr a \<Rightarrow> f a)"

text \<open>The object at \<open>seg['departure']\<close>; its key \<open>at\<close> is the field \<open>at_time\<close>.\<close>

record departure_time =
  at_time :: "string option"

record segment =
  carrierCode :: "string option"
  number :: "string option"
  departure :: "departure_time option"

record itinerary =
  segments :: "segment list option"

record offer =
  itineraries :: "itinerary list option"

text \<open>\<open>resp.data\<close> may be \<open>None\<close> (the loop runs over \<open>resp.data or []\<close>).\<close>

record flight_response =
  data :: "offer list option"

text \<open>The Amadeus client is what its \<open>shopping.flight_offers_search.get\<close> answers.\<close>

type_synonym amadeus_client = "flight_params \<Rightarrow> exn + flight_response"

text \<open>An event: \<open>name_text\<close> is the value of \<open>ev['name']['text']\<close> and \<open>start_local\<close> that of
  \<open>ev['start']['local']\<close>, \<open>None\<close> when one of the two keys on the way is missing (the
  \<open>KeyError\<close> is caught in \<open>search_events\<close>, which logs a fixed message).\<close>

record event_item =
  name_text :: "string option"
  start_local :: "string option"

record element =
  tags :: "(string \<rightharpoonup> string) option"

text \<open>The JSON object of an HTTP response, with the two keys the code reads with \<open>.get\<close>.\<close>

record body =
  events :: "event_item list option"
  elements :: "element list option"

text \<open>
  A \<open>requests\<close> response: \<open>status_error\<close> is the exception \<open>raise_for_status()\<close> raises, if
  any; \<open>json\<close> is the result of \<open>r.json()\<close>, an exception when the payload does not decode
  to an object.
\<close>

record response =
  status_error :: "exn option"
  json :: "exn + body"

text \<open>A geocoded location; the coordinates are floats of which only \<open>str\<close> is used.\<close>

record location =
  latitude :: string
  longitude :: string

text \<open>
  Everything a run reads from outside: the clock, the environment, the airport table and
  the answer of each collaborator to each query. \<open>run_sync_request\<close> and \<open>run_sync_text\<close>
  are \<open>Agent(model, output_type, system_prompt).run_sync(prompt).output\<close> for the two
  output types, taking model, system prompt and prompt.
\<close>

record world =
  current_date :: date
  environ :: "string \<rightharpoonup> string"
  airports_data :: airport_table
  run_sync_request :: "string \<Rightarrow> string \<Rightarrow> string \<Rightarrow> exn + UserRequest"
  run_sync_text :: "string \<Rightarrow> string \<Rightarrow> string \<Rightarrow> exn + string"
  Client :: "string option \<Rightarrow> string option \<Rightarrow> exn + amadeus_client"
  requests_get :: "string \<Rightarrow> (string \<times> string) list \<Rightarrow> exn + response"
  geocode :: "string \<Rightarrow> exn + location option"

section \<open>Parsing: \<open>parse_user_request\<close>\<close>

definition extraction_system_prompt :: string where
  "extraction_system_prompt =
     ''Extract origin, destination, start_date (YYYY-MM-DD), end_date (YYYY-MM-DD), ''
     @ ''budget (float), and interests (list of keywords) from this sentence. ''
     @ ''If dates are missing, guess a 2-week-from-today start and add however much time they are telling in words or numbers. Return JSON matching UserRequest.''
     @ ''You also Correct the spellings of The names of places if they are not correct.''"

definition agent_model :: "world \<Rightarrow> string" where
  "agent_model w = dict_get (environ w) ''PYDANTIC_AI_MODEL'' ''google-gla:gemini-2.0-flash''"

definition parse_user_request :: "world \<Rightarrow> string \<Rightarrow> UserRequest io" where
  "parse_user_request w text =
     bind_io (emit (AgentRun (agent_model w) extraction_system_prompt text)) (\<lambda>_.
     lift_io (run_sync_request w (agent_model w) extraction_system_prompt text))"

section \<open>Flight search: \<open>search_flights\<close>\<close>

text \<open>The body of the loop up to the \<open>append\<close>: the segment, then the formatted string.\<close>

definition offer_descriptor :: "offer \<Rightarrow> exn + string" where
  "offer_descriptor offer =
     bind_sum (getitem ''itineraries'' (itineraries offer)) (\<lambda>itins.
     bind_sum (first itins) (\<lambda>itin.
     bind_sum (getitem ''segments'' (segments itin)) (\<lambda>segs.
     bind_sum (first segs) (\<lambda>seg.
     bind_sum (getitem ''carrierCode'' (carrierCode seg)) (\<lambda>carrier.
     bind_sum (getitem ''number'' (number seg)) (\<lambda>flight_number.
     bind_sum (getitem ''departure'' (departure seg)) (\<lambda>dep.
     bind_sum (getitem ''at'' (at_time dep)) (\<lambda>departure_at.
     Inr (carrier @ flight_number @ '' on '' @ departure_at)))))))))"

text \<open>The \<open>for offer in resp.data or []\<close> loop, appending to \<open>flights\<close>.\<close>

fun flights_loop :: "offer list \<Rightarrow> string list \<Rightarrow> exn + string list" where
  "flights_loop [] flights = Inr flights"
| "flights_loop (offer # rest) flights =
     (case offer_descriptor offer of
        Inl e \<Rightarrow> Inl e
      | Inr descriptor \<Rightarrow> flights_loop rest (flights @ [descriptor]))"

text \<open>
  \<open>flights\<close> is still empty when the provider call raises, which is the only place a
  \<open>ResponseError\<close> comes from, so the handler's \<open>return flights\<close> returns the empty list.
\<close>

text \<open>The dict \<open>params\<close> of \<open>search_flights\<close>.\<close>

definition flights_params :: "string \<Rightarrow> string \<Rightarrow> date \<Rightarrow> date \<Rightarrow> flight_params" where
  "flights_params origin_code dest_code start end =
     \<lparr>originLocationCode = origin_code,
      destinationLocationCode = dest_code,
      departureDate = isoformat start,
      returnDate = isoformat end,
      adults = 1,
      max_offers = 3\<rparr>"

definition search_flights ::
  "amadeus_client \<Rightarrow> string \<Rightarrow> string \<Rightarrow> date \<Rightarrow> date \<Rightarrow> string list io" where
  "search_flights amadeus origin_code dest_code start end =
     catch_io
       (let params = flights_params origin_code dest_code start end in
        bind_io (emit (FlightOffersSearch params)) (\<lambda>_.
        bind_io (lift_io (amadeus params)) (\<lambda>resp.
        bind_io (lift_io (flights_loop (case data resp of None \<Rightarrow> [] | Some offers \<Rightarrow> offers) []))
          (\<lambda>flights.
        bind_io (if flights = [] then emit (Log WARNING ''No flights found.'') else return_io ())
          (\<lambda>_.
        return_io flights)))))
       is_ResponseError
       (\<lambda>e. bind_io (emit (Log ERROR (''Flight search error: '' @ str_exn e))) (\<lambda>_.
             return_io []))"

section \<open>Event search: \<open>search_events\<close>\<close>

text \<open>The parameter \<open>interests\<close> is named \<open>interest_words\<close> here, apart from the field.\<close>

definition raise_for_status :: "response \<Rightarrow> unit io" where
  "raise_for_status r = (case status_error r of None \<Rightarrow> return_io () | Some e \<Rightarrow> lift_io (Inl e))"

definition events_url :: string where
  "events_url = ''https://www.eventbriteapi.com/v3/events/search/''"

text \<open>The dict \<open>params\<close> of \<open>search_events\<close>, in insertion order.\<close>

definition events_params ::
  "string \<Rightarrow> date \<Rightarrow> date \<Rightarrow> string \<Rightarrow> string list \<Rightarrow> (string \<times> string) list" where
  "events_params city start end token interest_words =
     [(''location.address'', city),
      (''start_date.range_start'', isoformat start),
      (''start_date.range_end'', isoformat end),
      (''token'', token),
      (''sort_by'', ''date''),
      (''q'', join '' '' interest_words)]"

text \<open>The list comprehension over \<open>data[:3]\<close>; it stops at the first event that raises.\<close>

definition event_descriptor :: "event_item \<Rightarrow> exn + string" where
  "event_descriptor ev =
     bind_sum (getitem ''name'' (name_text ev)) (\<lambda>name.
     bind_sum (getitem ''start'' (start_local ev)) (\<lambda>local.
     Inr (name @ '' at '' @ local)))"

fun event_descriptors :: "event_item list \<Rightarrow> exn + string list" where
  "event_descriptors [] = Inr []"
| "event_descriptors (ev # rest) =
     (case event_descriptor ev of
        Inl e \<Rightarrow> Inl e
      | Inr descriptor \<Rightarrow>
          (case event_descriptors rest of
             Inl e \<Rightarrow> Inl e
           | Inr descriptors \<Rightarrow> Inr (descriptor # descriptors)))"

definition search_events :: "world \<Rightarrow> string \<Rightarrow> date \<Rightarrow> date \<Rightarrow> string list \<Rightarrow> string list io" where
  "search_events w city start end interest_words =
     (case environ w ''EVENTBRITE_TOKEN'' of
        None \<Rightarrow>
          bind_io (emit (Log WARNING ''No Eventbrite token; skipping events.'')) (\<lambda>_.
          return_io [])
      | Some token \<Rightarrow>
          if token = [] then
            bind_io (emit (Log WARNING ''No Eventbrite token; skipping events.'')) (\<lambda>_.
            return_io [])
          else
            (let url = events_url;
                 params = events_params city start end token interest_words in
             catch_io
               (bind_io (emit (RequestsGet url params)) (\<lambda>_.
                bind_io (lift_io (requests_get w url params)) (\<lambda>r.
                bind_io (raise_for_status r) (\<lambda>_.
                bind_io (lift_io (json r)) (\<lambda>b.
                (let data = (case events b of None \<Rightarrow> [] | Some evs \<Rightarrow> evs) in
                 lift_io (event_descriptors (take 3 data))))))))
               is_Exception
               (\<lambda>e. bind_io (emit (Log ERROR ''Event search error: No Event Found'')) (\<lambda>_.
                     return_io []))))"

section \<open>Restaurant search: \<open>search_restaurants\<close>\<close>

text \<open>The \<open>for el in elements\<close> loop with its \<open>break\<close>, appending to \<open>names\<close>.\<close>

fun restaurants_loop :: "element list \<Rightarrow> string list \<Rightarrow> string list" where
  "restaurants_loop [] names = names"
| "restaurants_loop (el # rest) names =
     (let name = (case tags el of None \<Rightarrow> Map.empty | Some t \<Rightarrow> t) ''name'';
          names = (case name of
                     None \<Rightarrow> names
                   | Some n \<Rightarrow> if n \<noteq> [] \<and> n \<notin> set names then names @ [n] else names)
      in if length names \<ge> 3 then names else restaurants_loop rest names)"

definition overpass_url :: string where
  "overpass_url = ''http://overpass-api.de/api/interpreter''"

text \<open>The string \<open>query\<close> of \<open>search_restaurants\<close>.\<close>

definition overpass_query :: "location \<Rightarrow> string" where
  "overpass_query l =
     ''[out:json]; node[amenity=restaurant](around:5000,'' @ latitude l @ '','' @ longitude l
     @ ''); out;''"

definition search_restaurants :: "world \<Rightarrow> string \<Rightarrow> string list io" where
  "search_restaurants w city =
     bind_io (emit (Geocode city)) (\<lambda>_.
     bind_io (lift_io (geocode w city)) (\<lambda>loc.
     (case loc of
        None \<Rightarrow>
          bind_io (emit (Log WARNING (''Could not geocode '' @ city @ ''; skipping restaurants.'')))
            (\<lambda>_.
          return_io [])
      | Some l \<Rightarrow>
          (let query = overpass_query l;
               url = overpass_url;
               params = [(''data'', query)] in
           catch_io
             (bind_io (emit (RequestsGet url params)) (\<lambda>_.
              bind_io (lift_io (requests_get w url params)) (\<lambda>r.
              bind_io (lift_io (json r)) (\<lambda>b.
              return_io
                (restaurants_loop (case elements b of None \<Rightarrow> [] | Some els \<Rightarrow> els) [])))))
             is_Exception
             (\<lambda>e. bind_io (emit (Log ERROR (''Restaurant search error: '' @ str_exn e))) (\<lambda>_.
                   return_io []))))))"

section \<open>Synthesis: \<open>build_itinerary_text\<close>\<close>

text \<open>The value of \<open>prompt\<close> in \<open>build_itinerary_text\<close>.\<close>

definition itinerary_prompt ::
  "UserRequest \<Rightarrow> string list \<Rightarrow> string list \<Rightarrow> string list \<Rightarrow> string" where
  "itinerary_prompt req flights event_list restaurants =
     ''Plan a friendly, detailed itinerary for a trip from '' @ origin req @ '' to ''
     @ destination req @ '', ''
     @ ''departing '' @ str_opt_date (start_date req) @ '' and returning ''
     @ str_opt_date (end_date req) @ ''. ''
     @ ''Flights: '' @ (if flights \<noteq> [] then join '', '' flights else ''none'') @ ''. ''
     @ ''Events: '' @ (if event_list \<noteq> [] then join '', '' event_list else ''none'') @ ''. ''
     @ ''Restaurants: '' @ (if restaurants \<noteq> [] then join '', '' restaurants else ''none'')
     @ ''. ''
     @ ''Do not return JSON. Write clear day-by-day bullet points.''
     @ ''Only give the itinerary for the trip, do not ask anything back.''
     @ ''Do not use Decorators like *'' @ [apostrophe]
     @ ''s, instead make use of whitespaces to make it look cleaner''"

definition build_itinerary_text ::
  "world \<Rightarrow> UserRequest \<Rightarrow> string list \<Rightarrow> string list \<Rightarrow> string list \<Rightarrow> string io" where
  "build_itinerary_text w req flights event_list restaurants =
     (let prompt = itinerary_prompt req flights event_list restaurants;
          system_prompt = ''You are a helpful travel planner.'' in
      bind_io (emit (AgentRun (agent_model w) system_prompt prompt)) (\<lambda>_.
      lift_io (run_sync_text w (agent_model w) system_prompt prompt)))"

section \<open>Main flow: \<open>main\<close>\<close>

text \<open>
  \<open>main_after_parse\<close> is the body of \<open>main\<close> from \<open>req = ensure_dates(req)\<close> on; \<open>main\<close>
  reads the request text (the argument \<open>text\<close>), parses it and continues there.
  \<open>resolve_codes\<close> is the \<open>try\<close> statement around the two \<open>find_iata\<close> calls; it yields
  \<open>None\<close> when its handler returns from \<open>main\<close>. A date that is \<open>None\<close> would fail at
  \<open>start.isoformat()\<close>.
\<close>

definition resolve_codes :: "world \<Rightarrow> UserRequest \<Rightarrow> (string \<times> string) option io" where
  "resolve_codes w req =
     catch_io
       (bind_io (lift_io (find_iata (airports_data w) (origin req))) (\<lambda>orig_code.
        bind_io (lift_io (find_iata (airports_data w) (destination req))) (\<lambda>dest_code.
        return_io (Some (orig_code, dest_code)))))
       is_KeyError
       (\<lambda>e. bind_io (emit (Log ERROR (''IATA lookup failed: '' @ str_exn e))) (\<lambda>_.
             return_io None))"

definition main_after_parse :: "world \<Rightarrow> UserRequest \<Rightarrow> unit io" where
  "main_after_parse w req =
     bind_io (ensure_dates (current_date w) req) (\<lambda>req.
     bind_io (emit (ClientInit (environ w ''AMADEUS_API_KEY'') (environ w ''AMADEUS_API_SECRET'')))
       (\<lambda>_.
     bind_io (lift_io (Client w (environ w ''AMADEUS_API_KEY'') (environ w ''AMADEUS_API_SECRET'')))
       (\<lambda>amadeus.
     bind_io (resolve_codes w req) (\<lambda>codes.
     (case codes of
        None \<Rightarrow> return_io ()
      | Some (orig_code, dest_code) \<Rightarrow>
          (case (start_date req, end_date req) of
             (Some start, Some end) \<Rightarrow>
               bind_io (search_flights amadeus orig_code dest_code start end) (\<lambda>flights.
               bind_io (search_events w (destination req) start end
                          (case interests req of None \<Rightarrow> [] | Some ws \<Rightarrow> ws)) (\<lambda>event_list.
               bind_io (search_restaurants w (destination req)) (\<lambda>restaurants.
               bind_io (build_itinerary_text w req flights event_list restaurants) (\<lambda>itinerary_text.
               bind_io (emit (Print ([CHR 0x0A] @ ''--- Your Itinerary ---'' @ [CHR 0x0A]))) (\<lambda>_.
               emit (Print itinerary_text))))))
           | _ \<Rightarrow>
               lift_io (Inl (AttributeError
                 (''NoneType'' @ [apostrophe] @ '' object has no attribute isoformat'')))))))))"

definition main :: "world \<Rightarrow> string \<Rightarrow> unit io" where
  "main w text =
     bind_io (emit (Input ''Enter your travel request: '')) (\<lambda>_.
     bind_io (parse_user_request w text) (\<lambda>req.
     main_after_parse w req))"

section \<open>Example inputs\<close>

text \<open>An airport table with two airports of Paris, one record without a \<open>city\<close> field and
  one with an empty one.\<close>

definition example_airports :: airport_table where
  "example_airports =
     [(''BOS'', [''city'' \<mapsto> ''Boston'']),
      (''CDG'', [''city'' \<mapsto> ''Paris'']),
      (''ZZZ'', Map.empty),
      (''ORY'', [''city'' \<mapsto> ''paris'']),
      (''YYY'', [''city'' \<mapsto> []]),
      (''DEN'', [''city'' \<mapsto> ''Denver''])]"

text \<open>Requests from Boston to Denver; 738886 is 2024-01-01, 739130 is 2024-09-01.\<close>

definition request_without_dates :: UserRequest where
  "request_without_dates =
     \<lparr>origin = ''Boston'', destination = ''Denver'', start_date = None, end_date = None,
      budget = Some 1000, interests = Some [''skiing'']\<rparr>"

definition request_end_before_start :: UserRequest where
  "request_end_before_start =
     \<lparr>origin = ''Boston'', destination = ''Denver'', start_date = Some 739137,
      end_date = Some 739130, budget = None, interests = None\<rparr>"

definition request_last_day :: UserRequest where
  "request_last_day =
     \<lparr>origin = ''Boston'', destination = ''Denver'', start_date = Some 3652059,
      end_date = None, budget = None, interests = None\<rparr>"

text \<open>A world in which every collaborator answers, and the pieces it is made of.\<close>

definition example_offer :: "string \<Rightarrow> string \<Rightarrow> string \<Rightarrow> offer" where
  "example_offer carrier flight_number departure_at =
     \<lparr>itineraries =
        Some [\<lparr>segments =
                 Some [\<lparr>carrierCode = Some carrier, number = Some flight_number,
                        departure = Some \<lparr>at_time = Some departure_at\<rparr>\<rparr>]\<rparr>]\<rparr>"

definition example_client :: amadeus_client where
  "example_client params =
     Inr \<lparr>data = Some [example_offer ''UA'' ''100'' ''2024-01-15T08:00:00'']\<rparr>"

definition new_example_client :: "string option \<Rightarrow> string option \<Rightarrow> exn + amadeus_client" where
  "new_example_client client_id client_secret = Inr example_client"

definition example_body :: body where
  "example_body =
     \<lparr>events =
        Some [\<lparr>name_text = Some ''Ski Expo'', start_local = Some ''2024-01-16T10:00:00''\<rparr>,
              \<lparr>name_text = Some ''Jazz Night'', start_local = Some ''2024-01-17T20:00:00''\<rparr>,
              \<lparr>name_text = Some ''Beer Fest'', start_local = Some ''2024-01-18T12:00:00''\<rparr>,
              \<lparr>name_text = Some ''Rodeo'', start_local = Some ''2024-01-19T18:00:00''\<rparr>],
      elements =
        Some [\<lparr>tags = Some [''name'' \<mapsto> ''Linger'']\<rparr>,
              \<lparr>tags = None\<rparr>,
              \<lparr>tags = Some [''name'' \<mapsto> ''Linger'']\<rparr>,
              \<lparr>tags = Some [''cuisine'' \<mapsto> ''thai'']\<rparr>,
              \<lparr>tags = Some [''name'' \<mapsto> ''Root Down'']\<rparr>,
              \<lparr>tags = Some [''name'' \<mapsto> ''Guard and Grace'']\<rparr>,
              \<lparr>tags = Some [''name'' \<mapsto> ''Tavernetta'']\<rparr>]\<rparr>"

definition example_requests_get :: "string \<Rightarrow> (string \<times> string) list \<Rightarrow> exn + response" where
  "example_requests_get url params = Inr \<lparr>status_error = None, json = Inr example_body\<rparr>"

definition example_geocode :: "string \<Rightarrow> exn + location option" where
  "example_geocode city = Inr (Some \<lparr>latitude = ''39.7392364'', longitude = ''-104.984862''\<rparr>)"

definition extract_without_dates :: "string \<Rightarrow> string \<Rightarrow> string \<Rightarrow> exn + UserRequest" where
  "extract_without_dates model system_prompt text = Inr request_without_dates"

definition narrate_short :: "string \<Rightarrow> string \<Rightarrow> string \<Rightarrow> exn + string" where
  "narrate_short model system_prompt prompt = Inr ''Day 1: arrive in Denver.''"

definition example_world :: world where
  "example_world =
     \<lparr>current_date = 738886,
      environ = [''EVENTBRITE_TOKEN'' \<mapsto> ''secret''],
      airports_data = example_airports,
      run_sync_request = extract_without_dates,
      run_sync_text = narrate_short,
      Client = new_example_client,
      requests_get = example_requests_get,
      geocode = example_geocode\<rparr>"

text \<open>The same world when the extracted destination is a place no airport serves.\<close>

definition extract_atlantis :: "string \<Rightarrow> string \<Rightarrow> string \<Rightarrow> exn + UserRequest" where
  "extract_atlantis model system_prompt text =
     Inr (request_without_dates\<lparr>destination := ''Atlantis''\<rparr>)"

definition world_atlantis :: world where
  "world_atlantis = example_world\<lparr>run_sync_request := extract_atlantis\<rparr>"

text \<open>
  The flight descriptor in the spec's words: the carrier code, the flight number and the
  departure timestamp of an offer, read from the first segment of its first itinerary;
  \<open>None\<close> for an offer that lacks one of them.
\<close>

definition flight_descriptor :: "offer \<Rightarrow> string option" where
  "flight_descriptor offer =
     (case itineraries offer of
        Some (itin # _) \<Rightarrow>
          (case segments itin of
             Some (seg # _) \<Rightarrow>
               (case (carrierCode seg, number seg, departure seg) of
                  (Some carrier, Some flight_number, Some dep) \<Rightarrow>
                    (case at_time dep of
                       Some timestamp \<Rightarrow> Some (carrier @ flight_number @ '' on '' @ timestamp)
                     | None \<Rightarrow> None)
                | _ \<Rightarrow> None)
           | _ \<Rightarrow> None)
      | _ \<Rightarrow> None)"

text \<open>A flight provider that answers with four offers whatever \<open>max\<close> asks for.\<close>

definition four_offer_client :: amadeus_client where
  "four_offer_client params =
     Inr \<lparr>data = Some [example_offer ''UA'' ''100'' ''2024-09-01T08:00:00'',
                       example_offer ''DL'' ''200'' ''2024-09-01T09:30:00'',
                       example_offer ''AA'' ''300'' ''2024-09-01T11:15:00'',
                       example_offer ''WN'' ''400'' ''2024-09-01T13:45:00'']\<rparr>"

text \<open>The example world without an Eventbrite token, and with a geocoder that times out.\<close>

definition world_without_token :: world where
  "world_without_token = example_world\<lparr>environ := Map.empty\<rparr>"

definition geocode_timed_out :: "string \<Rightarrow> exn + location option" where
  "geocode_timed_out city = Inl (OtherError ''Service timed out'')"

definition world_geocoder_down :: world where
  "world_geocoder_down = example_world\<lparr>geocode := geocode_timed_out\<rparr>"

text \<open>
  A section of the synthesis prompt in the spec's words: the literal word \<open>none\<close> for an
  empty sequence of facts, the entries separated by a comma and a space otherwise.
\<close>

definition fact_section :: "string list \<Rightarrow> string" where
  "fact_section facts =
     (case facts of
        [] \<Rightarrow> ''none''
      | entry # others \<Rightarrow> entry @ concat (map (\<lambda>next_entry. '', '' @ next_entry) others))"

text \<open>The request without dates as \<open>ensure_dates\<close> returns it on 2024-01-01.\<close>

definition request_normalized :: UserRequest where
  "request_normalized =
     request_without_dates\<lparr>start_date := Some 738900, end_date := Some 738907\<rparr>"

section \<open>Properties of \<open>find_iata\<close>\<close>

lemma find_iata_loop_first:
  "i < length airports \<Longrightarrow>
   lower (dict_get (snd (airports ! i)) ''city'' []) = cl \<Longrightarrow>
   (\<forall>j<i. lower (dict_get (snd (airports ! j)) ''city'' []) \<noteq> cl) \<Longrightarrow>
   find_iata_loop airports cl = Some (fst (airports ! i))"
proof (induction airports arbitrary: i)
  case Nil
  then show ?case by simp
next
  case (Cons entry rest)
  obtain code info where entry: "entry = (code, info)" by (cases entry)
  show ?case
  proof (cases i)
    case 0
    with Cons.prems entry show ?thesis by simp
  next
    case (Suc k)
    from Cons.prems(3) Suc have head: "lower (dict_get info ''city'' []) \<noteq> cl"
      using entry by fastforce
    from Cons.prems(3) Suc
    have earlier: "\<forall>j<k. lower (dict_get (snd (rest ! j)) ''city'' []) \<noteq> cl"
      by fastforce
    from Cons.prems(1,2) Suc have "k < length rest"
      and "lower (dict_get (snd (rest ! k)) ''city'' []) = cl" by simp_all
    then have "find_iata_loop rest cl = Some (fst (rest ! k))"
      using earlier by (rule Cons.IH)
    with head entry Suc show ?thesis by simp
  qed
qed

lemma lower_eq_Nil: "(lower s = []) = (s = [])"
  by (simp add: lower_def)

lemma strip_whitespace: "list_all is_space s \<Longrightarrow> strip s = []"
proof -
  assume "list_all is_space s"
  then have dropped: "dropWhile is_space s = []"
    by (simp add: list_all_iff)
  show ?thesis
    unfolding strip_def dropped by simp
qed

lemma lower_strip_Paris:
  "lower (strip ''Paris'') = ''paris''"
  "lower (strip '' paris '') = ''paris''"
  "lower (strip ''PARIS'') = ''paris''"
  by code_simp+

text \<open>
  Claim C3. \<open>find_iata\<close> returns the code of the first record, in the table's iteration
  order, whose city (the empty string when the record has none) lowercased equals the
  input stripped and lowercased. When that normal form is \<open>paris\<close>, the inputs \<open>Paris\<close>,
  \<open> paris \<close> and \<open>PARIS\<close> all resolve to that same code.
\<close>

theorem find_iata_first_match:
  assumes "i < length airports"
    and "lower (dict_get (snd (airports ! i)) ''city'' []) = lower (strip city_name)"
    and "\<forall>j<i. lower (dict_get (snd (airports ! j)) ''city'' []) \<noteq> lower (strip city_name)"
  shows "find_iata airports city_name = Inr (fst (airports ! i)) \<and>
         (lower (strip city_name) = ''paris'' \<longrightarrow>
            find_iata airports ''Paris'' = Inr (fst (airports ! i)) \<and>
            find_iata airports '' paris '' = Inr (fst (airports ! i)) \<and>
            find_iata airports ''PARIS'' = Inr (fst (airports ! i)))"
proof -
  from assms have found:
    "find_iata_loop airports (lower (strip city_name)) = Some (fst (airports ! i))"
    by (rule find_iata_loop_first)
  have same: "find_iata airports other = Inr (fst (airports ! i))"
    if "lower (strip other) = lower (strip city_name)" for other
    using found that by (simp add: find_iata_def)
  show ?thesis
    using same [of city_name] same [of "''Paris''"] same [of "'' paris ''"]
      same [of "''PARIS''"]
    by (simp add: lower_strip_Paris)
qed

theorem find_iata_first_match_witness:
  "find_iata example_airports ''Paris'' = Inr ''CDG'' \<and>
   find_iata example_airports '' paris '' = Inr ''CDG'' \<and>
   find_iata example_airports ''PARIS'' = Inr ''CDG''"
proof -
  have len: "(1::nat) < length example_airports"
    by (simp add: example_airports_def)
  have hit: "lower (dict_get (snd (example_airports ! 1)) ''city'' []) = lower (strip ''Paris'')"
    by code_simp
  have miss: "\<forall>j<(1::nat). lower (dict_get (snd (example_airports ! j)) ''city'' [])
                \<noteq> lower (strip ''Paris'')"
    by code_simp
  have code: "fst (example_airports ! 1) = ''CDG''"
    by (simp add: example_airports_def)
  show ?thesis
    using find_iata_first_match [OF len hit miss] code
    by (simp add: lower_strip_Paris)
qed

text \<open>
  Claim C10. For an input that is empty or made of whitespace only, \<open>find_iata\<close> raises
  nothing as soon as some record of the table has no \<open>city\<close> field or an empty one: it
  returns the code of the first such record in iteration order.
\<close>

theorem find_iata_blank_input:
  assumes "list_all is_space city_name"
    and "i < length airports"
    and "snd (airports ! i) ''city'' = None \<or> snd (airports ! i) ''city'' = Some []"
    and "\<forall>j<i. \<exists>c. snd (airports ! j) ''city'' = Some c \<and> c \<noteq> []"
  shows "find_iata airports city_name = Inr (fst (airports ! i))"
proof -
  from assms(1) have blank: "lower (strip city_name) = []"
    by (simp add: strip_whitespace lower_eq_Nil)
  from assms(3) have hit: "lower (dict_get (snd (airports ! i)) ''city'' []) = []"
    by (auto simp: dict_get_def lower_eq_Nil)
  from assms(4) have miss: "\<forall>j<i. lower (dict_get (snd (airports ! j)) ''city'' []) \<noteq> []"
    by (fastforce simp: dict_get_def lower_eq_Nil)
  from assms(2) hit miss
  have "find_iata_loop airports [] = Some (fst (airports ! i))"
    by (rule find_iata_loop_first)
  with blank show ?thesis
    by (simp add: find_iata_def)
qed

theorem find_iata_blank_input_witness:
  "find_iata example_airports [CHR '' '', CHR 0x09, CHR '' ''] = Inr ''ZZZ''"
proof -
  have blank: "list_all is_space [CHR '' '', CHR 0x09, CHR '' '']"
    by code_simp
  have len: "(2::nat) < length example_airports"
    by (simp add: example_airports_def)
  have hit: "snd (example_airports ! 2) ''city'' = None
               \<or> snd (example_airports ! 2) ''city'' = Some []"
    by (simp add: example_airports_def)
  have miss: "\<forall>j<(2::nat). \<exists>c. snd (example_airports ! j) ''city'' = Some c \<and> c \<noteq> []"
    by (simp add: example_airports_def less_Suc_eq numeral_2_eq_2)
  have code: "fst (example_airports ! 2) = ''ZZZ''"
    by (simp add: example_airports_def)
  show ?thesis
    using find_iata_blank_input [OF blank len hit miss] code by simp
qed

section \<open>Properties of \<open>ensure_dates\<close>\<close>

lemma bind_io_Inl: "bind_io (t, Inl e) f = (t, Inl e)"
  by (simp add: bind_io_def)

lemma bind_io_Inr: "bind_io (t, Inr a) f = (t @ fst (f a), snd (f a))"
  by (simp add: bind_io_def split: prod.splits)

lemma bind_io_return: "bind_io (return_io a) f = f a"
  by (simp add: bind_io_def return_io_def split: prod.splits)

lemma bind_io_emit: "bind_io (emit ev) f = (ev # fst (f ()), snd (f ()))"
  by (simp add: bind_io_def emit_def split: prod.splits)

lemma bind_io_lift_Inr: "bind_io (lift_io (Inr a)) f = f a"
  by (simp add: bind_io_def lift_io_def split: prod.splits)

lemma bind_io_lift_Inl: "bind_io (lift_io (Inl e)) f = ([], Inl e)"
  by (simp add: bind_io_def lift_io_def)

lemmas io_simps =
  bind_io_Inl bind_io_Inr bind_io_return bind_io_emit bind_io_lift_Inr bind_io_lift_Inl

text \<open>The four cases of \<open>ensure_dates\<close>, in closed form.\<close>

lemma ensure_dates_both_present:
  "start_date req = Some s \<Longrightarrow> end_date req = Some e \<Longrightarrow>
   ensure_dates today req = ([], Inr req)"
  by (simp add: ensure_dates_def io_simps return_io_def)

lemma ensure_dates_start_present:
  "start_date req = Some s \<Longrightarrow> end_date req = None \<Longrightarrow>
   ensure_dates today req =
     (case date_add s 7 of
        Inl e \<Rightarrow> ([], Inl e)
      | Inr d \<Rightarrow> ([Log INFO (''No end_date: defaulting to '' @ isoformat d)],
                  Inr (req\<lparr>end_date := Some d\<rparr>)))"
  by (simp add: ensure_dates_def io_simps return_io_def opt_date_add_def split: sum.splits)

lemma ensure_dates_end_present:
  "start_date req = None \<Longrightarrow> end_date req = Some e \<Longrightarrow>
   ensure_dates today req =
     (case date_add today 14 of
        Inl e \<Rightarrow> ([], Inl e)
      | Inr d \<Rightarrow> ([Log INFO (''No start_date: defaulting to '' @ isoformat d)],
                  Inr (req\<lparr>start_date := Some d\<rparr>)))"
  by (simp add: ensure_dates_def io_simps return_io_def split: sum.splits)

lemma ensure_dates_none_present:
  "start_date req = None \<Longrightarrow> end_date req = None \<Longrightarrow>
   ensure_dates today req =
     (case date_add today 14 of
        Inl e \<Rightarrow> ([], Inl e)
      | Inr d \<Rightarrow>
          (case date_add d 7 of
             Inl e \<Rightarrow> ([Log INFO (''No start_date: defaulting to '' @ isoformat d)], Inl e)
           | Inr d' \<Rightarrow>
               ([Log INFO (''No start_date: defaulting to '' @ isoformat d),
                 Log INFO (''No end_date: defaulting to '' @ isoformat d')],
                Inr (req\<lparr>start_date := Some d, end_date := Some d'\<rparr>))))"
  by (simp add: ensure_dates_def io_simps return_io_def opt_date_add_def split: sum.splits)

lemma date_add_Inr: "date_add d n = Inr d' \<Longrightarrow> d' = d + n"
  by (simp add: date_add_def Let_def split: if_splits)

text \<open>
  Claim C1, as the code has it. Whenever \<open>ensure_dates\<close> completes, both dates are
  present. The end date is not earlier than the start date exactly when no end date was
  supplied (it is then the start date plus 7 days) or the supplied end date is not
  earlier than the supplied or defaulted start date: supplied dates are returned as
  given, their order is not checked.
\<close>

theorem ensure_dates_dates_present:
  assumes "ensure_dates today req = (t, Inr req')"
  shows "\<exists>s e. start_date req' = Some s \<and> end_date req' = Some e \<and>
           (end_date req = None \<longrightarrow> e = s + 7 \<and> s \<le> e) \<and>
           (s \<le> e) =
             (case end_date req of
                None \<Rightarrow> True
              | Some e0 \<Rightarrow> (case start_date req of None \<Rightarrow> today + 14 | Some s0 \<Rightarrow> s0) \<le> e0)"
proof (cases "start_date req")
  case None
  note start = this
  show ?thesis
  proof (cases "end_date req")
    case None
    with start assms show ?thesis
      by (auto simp: ensure_dates_none_present split: sum.splits dest!: date_add_Inr)
  next
    case (Some e0)
    with start assms show ?thesis
      by (auto simp: ensure_dates_end_present split: sum.splits dest!: date_add_Inr)
  qed
next
  case (Some s0)
  note start = this
  show ?thesis
  proof (cases "end_date req")
    case None
    with start assms show ?thesis
      by (auto simp: ensure_dates_start_present split: sum.splits dest!: date_add_Inr)
  next
    case (Some e0)
    with start assms show ?thesis
      by (auto simp: ensure_dates_both_present)
  qed
qed

theorem ensure_dates_dates_present_witness:
  "ensure_dates 738886 request_without_dates =
     ([Log INFO ''No start_date: defaulting to 2024-01-15'',
       Log INFO ''No end_date: defaulting to 2024-01-22''],
      Inr (request_without_dates\<lparr>start_date := Some 738900, end_date := Some 738907\<rparr>))
   \<and> (\<exists>s e. Some (738900::int) = Some s \<and> Some (738907::int) = Some e \<and> e = s + 7 \<and> s \<le> e)"
proof -
  have run: "ensure_dates 738886 request_without_dates =
     ([Log INFO ''No start_date: defaulting to 2024-01-15'',
       Log INFO ''No end_date: defaulting to 2024-01-22''],
      Inr (request_without_dates\<lparr>start_date := Some 738900, end_date := Some 738907\<rparr>))"
    by code_simp
  show ?thesis
    using ensure_dates_dates_present [OF run] run
    by (simp add: request_without_dates_def)
qed

theorem ensure_dates_supplied_order_counterexample:
  "ensure_dates 738886 request_end_before_start = ([], Inr request_end_before_start)
   \<and> start_date request_end_before_start = Some 739137
   \<and> end_date request_end_before_start = Some 739130
   \<and> \<not> ((739137::int) \<le> 739130)"
  by (simp add: ensure_dates_both_present [of _ 739137 739130] request_end_before_start_def)

text \<open>
  Claim C2, as the code has it. For a valid current date and a valid supplied start date,
  \<open>ensure_dates\<close> returns exactly when the dates it computes stay within \<open>date.max\<close>, and
  raises \<open>OverflowError\<close> otherwise. When it returns, an absent start date has become the
  current date plus 14 days, an absent end date the (supplied or defaulted) start date
  plus 7 days, and supplied dates and all other fields are unchanged.
\<close>

theorem ensure_dates_defaults:
  assumes "valid_date today"
    and "\<forall>s. start_date req = Some s \<longrightarrow> valid_date s"
  shows "let s' = (case start_date req of None \<Rightarrow> today + 14 | Some s \<Rightarrow> s);
             e' = (case end_date req of None \<Rightarrow> s' + 7 | Some e \<Rightarrow> e);
             in_range = ((start_date req = None \<longrightarrow> s' \<le> MAXORDINAL)
                         \<and> (end_date req = None \<longrightarrow> e' \<le> MAXORDINAL))
         in snd (ensure_dates today req) =
              (if in_range then Inr (req\<lparr>start_date := Some s', end_date := Some e'\<rparr>)
               else Inl (OverflowError ''date value out of range''))"
proof (cases "start_date req")
  case None
  note start = this
  show ?thesis
  proof (cases "end_date req")
    case None
    with start assms(1) show ?thesis
      by (simp add: ensure_dates_none_present date_add_def valid_date_def Let_def)
  next
    case (Some e0)
    with start assms(1) show ?thesis
      by (simp add: ensure_dates_end_present date_add_def valid_date_def Let_def)
  qed
next
  case (Some s0)
  note start = this
  with assms(2) have valid: "valid_date s0" by simp
  show ?thesis
  proof (cases "end_date req")
    case None
    with start valid show ?thesis
      by (simp add: ensure_dates_start_present date_add_def valid_date_def Let_def)
  next
    case (Some e0)
    with start show ?thesis
      by (simp add: ensure_dates_both_present)
  qed
qed

theorem ensure_dates_defaults_witness:
  "valid_date 738886
   \<and> start_date request_without_dates = None
   \<and> snd (ensure_dates 738886 request_without_dates) =
       Inr (request_without_dates\<lparr>start_date := Some 738900, end_date := Some 738907\<rparr>)"
proof -
  have today: "valid_date 738886"
    by (simp add: valid_date_def MAXORDINAL_def)
  have start: "\<forall>s. start_date request_without_dates = Some s \<longrightarrow> valid_date s"
    by (simp add: request_without_dates_def)
  show ?thesis
    using ensure_dates_defaults [OF today start] today start
    by (simp add: request_without_dates_def MAXORDINAL_def)
qed

theorem ensure_dates_overflow_counterexample:
  "valid_date 738886
   \<and> start_date request_last_day = Some 3652059
   \<and> valid_date 3652059
   \<and> ensure_dates 738886 request_last_day = ([], Inl (OverflowError ''date value out of range''))"
  by (simp add: ensure_dates_start_present [of _ 3652059] request_last_day_def date_add_def
      valid_date_def MAXORDINAL_def)

section \<open>Resolution failure in \<open>main\<close>\<close>

lemma find_iata_loop_no_record:
  "list_all (\<lambda>entry. lower (dict_get (snd entry) ''city'' []) \<noteq> cl) airports \<Longrightarrow>
   find_iata_loop airports cl = None"
  by (induction airports) auto

lemma ensure_dates_trace:
  assumes "ensure_dates today req = (t, r)"
  shows "\<forall>ev \<in> set t. \<exists>m. ev = Log INFO m"
proof (cases "start_date req")
  case None
  note start = this
  show ?thesis
  proof (cases "end_date req")
    case None
    with start assms show ?thesis
      by (auto simp: ensure_dates_none_present split: sum.splits)
  next
    case (Some e0)
    with start assms show ?thesis
      by (auto simp: ensure_dates_end_present split: sum.splits)
  qed
next
  case (Some s0)
  note start = this
  show ?thesis
  proof (cases "end_date req")
    case None
    with start assms show ?thesis
      by (auto simp: ensure_dates_start_present split: sum.splits)
  next
    case (Some e0)
    with start assms show ?thesis
      by (auto simp: ensure_dates_both_present)
  qed
qed

text \<open>The \<open>try\<close> statement of \<open>main\<close> when one of the two lookups fails.\<close>

lemma resolve_failure:
  assumes "find_iata (airports_data w) place = Inl (KeyError m)"
    and "place = origin req
         \<or> (find_iata (airports_data w) (origin req) = Inr code \<and> place = destination req)"
  shows "resolve_codes w req = ([Log ERROR (''IATA lookup failed: '' @ repr m)], Inr None)"
  using assms
  by (auto simp: resolve_codes_def io_simps catch_io_def return_io_def)

lemma main_parsed:
  assumes "run_sync_request w (agent_model w) extraction_system_prompt line = Inr req0"
  shows "main w line =
           (Input ''Enter your travel request: ''
              # AgentRun (agent_model w) extraction_system_prompt line
              # fst (main_after_parse w req0),
            snd (main_after_parse w req0))"
  using assms
  by (simp add: main_def parse_user_request_def bind_io_def emit_def lift_io_def
      split: prod.splits)

lemma main_after_parse_unresolved:
  assumes "ensure_dates (current_date w) req0 = (t, Inr req)"
    and "Client w (environ w ''AMADEUS_API_KEY'') (environ w ''AMADEUS_API_SECRET'') = Inr amadeus"
    and "resolve_codes w req = (t', Inr None)"
  shows "main_after_parse w req0 =
           (t @ ClientInit (environ w ''AMADEUS_API_KEY'') (environ w ''AMADEUS_API_SECRET'') # t',
            Inr ())"
  using assms
  by (simp add: main_after_parse_def bind_io_def emit_def lift_io_def return_io_def)

text \<open>
  Claim C4. When no record of the table matches a place name, \<open>find_iata\<close> raises a
  \<open>KeyError\<close> whose message quotes the place as it was given, and returns no code. In
  \<open>main\<close>, once the request is parsed and normalized and the flight client is built, such
  a failure for the origin, or for the destination after the origin resolved, ends the
  run: the failure is logged with the place, \<open>main\<close> returns, nothing is printed, no
  provider is queried and the narrative generator never runs.
\<close>

theorem find_iata_not_found_fatal:
  assumes "list_all (\<lambda>entry. lower (dict_get (snd entry) ''city'' []) \<noteq> lower (strip place))
             airports"
  shows "find_iata airports place =
           Inl (KeyError (''No IATA code found for city '' @ [apostrophe] @ place @ [apostrophe]))
         \<and> (\<forall>w text req0 t req amadeus code.
              airports_data w = airports
              \<and> run_sync_request w (agent_model w) extraction_system_prompt text = Inr req0
              \<and> ensure_dates (current_date w) req0 = (t, Inr req)
              \<and> Client w (environ w ''AMADEUS_API_KEY'') (environ w ''AMADEUS_API_SECRET'')
                  = Inr amadeus
              \<and> (place = origin req
                  \<or> (find_iata airports (origin req) = Inr code \<and> place = destination req))
              \<longrightarrow>
              main w text =
                ([Input ''Enter your travel request: '',
                  AgentRun (agent_model w) extraction_system_prompt text]
                 @ t
                 @ [ClientInit (environ w ''AMADEUS_API_KEY'') (environ w ''AMADEUS_API_SECRET''),
                    Log ERROR (''IATA lookup failed: ''
                      @ repr (''No IATA code found for city '' @ [apostrophe] @ place
                              @ [apostrophe]))],
                 Inr ())
              \<and> (\<forall>ev \<in> set (fst (main w text)).
                    (\<exists>prompt. ev = Input prompt)
                    \<or> (\<exists>lvl m. ev = Log lvl m)
                    \<or> (\<exists>k s. ev = ClientInit k s)
                    \<or> ev = AgentRun (agent_model w) extraction_system_prompt text))"
proof -
  from assms have none: "find_iata_loop airports (lower (strip place)) = None"
    by (rule find_iata_loop_no_record)
  then have raised: "find_iata airports place =
      Inl (KeyError (''No IATA code found for city '' @ [apostrophe] @ place @ [apostrophe]))"
    by (simp add: find_iata_def)
  have run: "main w line =
                ([Input ''Enter your travel request: '',
                  AgentRun (agent_model w) extraction_system_prompt line]
                 @ t
                 @ [ClientInit (environ w ''AMADEUS_API_KEY'') (environ w ''AMADEUS_API_SECRET''),
                    Log ERROR (''IATA lookup failed: ''
                      @ repr (''No IATA code found for city '' @ [apostrophe] @ place
                              @ [apostrophe]))],
                 Inr ())"
    if w: "airports_data w = airports"
      and parsed: "run_sync_request w (agent_model w) extraction_system_prompt line = Inr req0"
      and normalized: "ensure_dates (current_date w) req0 = (t, Inr req)"
      and client: "Client w (environ w ''AMADEUS_API_KEY'') (environ w ''AMADEUS_API_SECRET'')
                  = Inr amadeus"
      and which: "place = origin req
                  \<or> (find_iata airports (origin req) = Inr code \<and> place = destination req)"
    for w line req0 t req amadeus code
  proof -
    from raised which w
    have "resolve_codes w req =
            ([Log ERROR (''IATA lookup failed: ''
                @ repr (''No IATA code found for city '' @ [apostrophe] @ place
                        @ [apostrophe]))], Inr None)"
      by (intro resolve_failure) simp_all
    with normalized client
    have "main_after_parse w req0 =
           (t @ ClientInit (environ w ''AMADEUS_API_KEY'') (environ w ''AMADEUS_API_SECRET'')
              # [Log ERROR (''IATA lookup failed: ''
                  @ repr (''No IATA code found for city '' @ [apostrophe] @ place
                          @ [apostrophe]))],
            Inr ())"
      by (rule main_after_parse_unresolved)
    with main_parsed [OF parsed] show ?thesis
      by simp
  qed
  have quiet: "\<forall>ev \<in> set (fst (main w line)).
                    (\<exists>prompt. ev = Input prompt)
                    \<or> (\<exists>lvl m. ev = Log lvl m)
                    \<or> (\<exists>k s. ev = ClientInit k s)
                    \<or> ev = AgentRun (agent_model w) extraction_system_prompt line"
    if w: "airports_data w = airports"
      and parsed: "run_sync_request w (agent_model w) extraction_system_prompt line = Inr req0"
      and normalized: "ensure_dates (current_date w) req0 = (t, Inr req)"
      and client: "Client w (environ w ''AMADEUS_API_KEY'') (environ w ''AMADEUS_API_SECRET'')
                  = Inr amadeus"
      and which: "place = origin req
                  \<or> (find_iata airports (origin req) = Inr code \<and> place = destination req)"
    for w line req0 t req amadeus code
    using run [OF that] ensure_dates_trace [OF normalized]
    by auto
  from raised run quiet show ?thesis
    by blast
qed

theorem find_iata_not_found_fatal_witness:
  "find_iata example_airports ''Atlantis'' =
     Inl (KeyError (''No IATA code found for city '' @ [apostrophe] @ ''Atlantis'' @ [apostrophe]))
   \<and> main world_atlantis ''Boston to Atlantis'' =
       ([Input ''Enter your travel request: '',
         AgentRun ''google-gla:gemini-2.0-flash'' extraction_system_prompt ''Boston to Atlantis'',
         Log INFO ''No start_date: defaulting to 2024-01-15'',
         Log INFO ''No end_date: defaulting to 2024-01-22'',
         ClientInit None None,
         Log ERROR (''IATA lookup failed: '' @ [dquote] @ ''No IATA code found for city ''
                    @ [apostrophe] @ ''Atlantis'' @ [apostrophe] @ [dquote])],
        Inr ())"
proof -
  have no_record:
    "list_all (\<lambda>entry. lower (dict_get (snd entry) ''city'' []) \<noteq> lower (strip ''Atlantis''))
       example_airports"
    by code_simp
  have model: "agent_model world_atlantis = ''google-gla:gemini-2.0-flash''"
    by (simp add: agent_model_def world_atlantis_def example_world_def dict_get_def)
  have env: "environ world_atlantis ''AMADEUS_API_KEY'' = None"
    "environ world_atlantis ''AMADEUS_API_SECRET'' = None"
    by (simp_all add: world_atlantis_def example_world_def)
  have table: "airports_data world_atlantis = example_airports"
    by (simp add: world_atlantis_def example_world_def)
  have parsed: "run_sync_request world_atlantis (agent_model world_atlantis)
       extraction_system_prompt ''Boston to Atlantis''
     = Inr (request_without_dates\<lparr>destination := ''Atlantis''\<rparr>)"
    by (simp add: world_atlantis_def example_world_def extract_atlantis_def)
  have normalized: "ensure_dates (current_date world_atlantis)
       (request_without_dates\<lparr>destination := ''Atlantis''\<rparr>)
     = ([Log INFO ''No start_date: defaulting to 2024-01-15'',
         Log INFO ''No end_date: defaulting to 2024-01-22''],
        Inr (request_without_dates\<lparr>destination := ''Atlantis'', start_date := Some 738900,
               end_date := Some 738907\<rparr>))"
    by code_simp
  have client: "Client world_atlantis (environ world_atlantis ''AMADEUS_API_KEY'')
       (environ world_atlantis ''AMADEUS_API_SECRET'') = Inr example_client"
    by (simp add: world_atlantis_def example_world_def new_example_client_def)
  have which: "''Atlantis'' = origin (request_without_dates\<lparr>destination := ''Atlantis'',
                 start_date := Some 738900, end_date := Some 738907\<rparr>)
     \<or> (find_iata example_airports (origin (request_without_dates\<lparr>destination := ''Atlantis'',
                 start_date := Some 738900, end_date := Some 738907\<rparr>)) = Inr ''BOS''
        \<and> ''Atlantis'' = destination (request_without_dates\<lparr>destination := ''Atlantis'',
                 start_date := Some 738900, end_date := Some 738907\<rparr>))"
    by code_simp
  have quoted: "repr (''No IATA code found for city '' @ [apostrophe] @ ''Atlantis'' @ [apostrophe])
     = [dquote] @ ''No IATA code found for city '' @ [apostrophe] @ ''Atlantis'' @ [apostrophe]
       @ [dquote]"
    by code_simp
  from find_iata_not_found_fatal [OF no_record]
  have found: "find_iata example_airports ''Atlantis'' =
     Inl (KeyError (''No IATA code found for city '' @ [apostrophe] @ ''Atlantis'' @ [apostrophe]))"
    and fatal: "\<And>w text req0 t req amadeus code.
              airports_data w = example_airports
              \<and> run_sync_request w (agent_model w) extraction_system_prompt text = Inr req0
              \<and> ensure_dates (current_date w) req0 = (t, Inr req)
              \<and> Client w (environ w ''AMADEUS_API_KEY'') (environ w ''AMADEUS_API_SECRET'')
                  = Inr amadeus
              \<and> (''Atlantis'' = origin req
                  \<or> (find_iata example_airports (origin req) = Inr code
                      \<and> ''Atlantis'' = destination req))
              \<Longrightarrow>
              main w text =
                ([Input ''Enter your travel request: '',
                  AgentRun (agent_model w) extraction_system_prompt text]
                 @ t
                 @ [ClientInit (environ w ''AMADEUS_API_KEY'') (environ w ''AMADEUS_API_SECRET''),
                    Log ERROR (''IATA lookup failed: ''
                      @ repr (''No IATA code found for city '' @ [apostrophe] @ ''Atlantis''
                              @ [apostrophe]))],
                 Inr ())"
    by blast+
  from fatal [of world_atlantis _ _ _ _ example_client "''BOS''", OF conjI [OF table
        conjI [OF parsed conjI [OF normalized conjI [OF client which]]]]]
  have "main world_atlantis ''Boston to Atlantis'' =
       ([Input ''Enter your travel request: '',
         AgentRun (agent_model world_atlantis) extraction_system_prompt ''Boston to Atlantis'']
        @ [Log INFO ''No start_date: defaulting to 2024-01-15'',
           Log INFO ''No end_date: defaulting to 2024-01-22'']
        @ [ClientInit (environ world_atlantis ''AMADEUS_API_KEY'')
             (environ world_atlantis ''AMADEUS_API_SECRET''),
           Log ERROR (''IATA lookup failed: ''
             @ repr (''No IATA code found for city '' @ [apostrophe] @ ''Atlantis''
                     @ [apostrophe]))],
        Inr ())" .
  with found show ?thesis
    unfolding model env quoted by simp
qed

section \<open>Properties of \<open>search_flights\<close>\<close>

lemma offer_descriptor_Inr:
  "(offer_descriptor offer = Inr descriptor) = (flight_descriptor offer = Some descriptor)"
  by (auto simp: offer_descriptor_def flight_descriptor_def bind_sum_def getitem_def first_def
      split: option.splits list.splits)

lemma flights_loop_descriptors:
  "map flight_descriptor offers = map Some descriptors \<Longrightarrow>
   flights_loop offers flights = Inr (flights @ descriptors)"
proof (induction offers arbitrary: flights descriptors)
  case Nil
  then show ?case by simp
next
  case (Cons offer rest)
  from Cons.prems obtain d ds where split: "descriptors = d # ds"
    "flight_descriptor offer = Some d" "map flight_descriptor rest = map Some ds"
    by (cases descriptors) auto
  from split(3) have "flights_loop rest (flights @ [d]) = Inr ((flights @ [d]) @ ds)"
    by (rule Cons.IH)
  moreover from split(2) have "offer_descriptor offer = Inr d"
    by (simp add: offer_descriptor_Inr)
  ultimately show ?case
    using split(1) by simp
qed

lemma search_flights_response_error:
  assumes "amadeus (flights_params origin_code dest_code start end) = Inl (ResponseError m)"
  shows "search_flights amadeus origin_code dest_code start end =
           ([FlightOffersSearch (flights_params origin_code dest_code start end),
             Log ERROR (''Flight search error: '' @ m)], Inr [])"
  using assms
  by (simp add: search_flights_def Let_def bind_io_def catch_io_def emit_def lift_io_def
      return_io_def)

lemma search_flights_offers:
  assumes "amadeus (flights_params origin_code dest_code start end) = Inr resp"
    and "offers = (case data resp of None \<Rightarrow> [] | Some given \<Rightarrow> given)"
    and "map flight_descriptor offers = map Some descriptors"
  shows "search_flights amadeus origin_code dest_code start end =
           (FlightOffersSearch (flights_params origin_code dest_code start end)
              # (if offers = [] then [Log WARNING ''No flights found.''] else []),
            Inr descriptors)"
proof -
  from assms(2,3)
  have "flights_loop (case data resp of None \<Rightarrow> [] | Some given \<Rightarrow> given) []
          = Inr descriptors"
    by (simp add: flights_loop_descriptors)
  moreover from assms(3) have "(descriptors = []) = (offers = [])"
    by (cases offers; cases descriptors) simp_all
  ultimately show ?thesis
    using assms(1)
    by (simp add: search_flights_def Let_def bind_io_def catch_io_def emit_def lift_io_def
        return_io_def)
qed

lemma map_Some_length:
  "map f xs = map Some ys \<Longrightarrow> length ys = length xs"
  by (metis length_map)

text \<open>
  Claim C5, as the code has it. \<open>search_flights\<close> asks the provider for at most 3 offers
  and returns one descriptor for each offer the provider sends, in the provider's order:
  for a response whose offers each have a descriptor (a first itinerary with a first
  segment that carries carrier code, number and departure time), the result has as many
  entries as the response has offers, and a warning is logged when there is none. On a
  provider \<open>ResponseError\<close> the error is logged and the result is empty. In both cases
  nothing is raised.
\<close>

theorem search_flights_result:
  "max_offers (flights_params origin_code dest_code start end) = 3
   \<and> (\<forall>m. amadeus (flights_params origin_code dest_code start end) = Inl (ResponseError m) \<longrightarrow>
          search_flights amadeus origin_code dest_code start end =
            ([FlightOffersSearch (flights_params origin_code dest_code start end),
              Log ERROR (''Flight search error: '' @ m)], Inr []))
   \<and> (\<forall>resp offers descriptors.
          amadeus (flights_params origin_code dest_code start end) = Inr resp
          \<and> offers = (case data resp of None \<Rightarrow> [] | Some given \<Rightarrow> given)
          \<and> map flight_descriptor offers = map Some descriptors \<longrightarrow>
          search_flights amadeus origin_code dest_code start end =
            (FlightOffersSearch (flights_params origin_code dest_code start end)
               # (if offers = [] then [Log WARNING ''No flights found.''] else []),
             Inr descriptors)
          \<and> length descriptors = length offers)"
  using search_flights_response_error [of amadeus origin_code dest_code start "end"]
    search_flights_offers [of amadeus origin_code dest_code start "end"]
    map_Some_length [of flight_descriptor]
  by (simp add: flights_params_def)

theorem search_flights_result_witness:
  "search_flights example_client ''BOS'' ''DEN'' 738900 738907 =
     ([FlightOffersSearch (flights_params ''BOS'' ''DEN'' 738900 738907)],
      Inr [''UA100 on 2024-01-15T08:00:00''])"
proof -
  have answer: "example_client (flights_params ''BOS'' ''DEN'' 738900 738907)
      = Inr \<lparr>data = Some [example_offer ''UA'' ''100'' ''2024-01-15T08:00:00'']\<rparr>"
    by (simp add: example_client_def)
  have descriptors: "map flight_descriptor [example_offer ''UA'' ''100'' ''2024-01-15T08:00:00'']
      = map Some [''UA100 on 2024-01-15T08:00:00'']"
    by (simp add: flight_descriptor_def example_offer_def)
  from search_flights_result [of "''BOS''" "''DEN''" 738900 738907 example_client]
  have "search_flights example_client ''BOS'' ''DEN'' 738900 738907 =
          (FlightOffersSearch (flights_params ''BOS'' ''DEN'' 738900 738907)
             # (if [example_offer ''UA'' ''100'' ''2024-01-15T08:00:00''] = []
                then [Log WARNING ''No flights found.''] else []),
           Inr [''UA100 on 2024-01-15T08:00:00''])"
    using answer descriptors by simp
  then show ?thesis
    by simp
qed

theorem search_flights_four_offers_counterexample:
  "snd (search_flights four_offer_client ''BOS'' ''DEN'' 739130 739137) =
     Inr [''UA100 on 2024-09-01T08:00:00'', ''DL200 on 2024-09-01T09:30:00'',
          ''AA300 on 2024-09-01T11:15:00'', ''WN400 on 2024-09-01T13:45:00'']
   \<and> \<not> length [''UA100 on 2024-09-01T08:00:00'', ''DL200 on 2024-09-01T09:30:00'',
                ''AA300 on 2024-09-01T11:15:00'', ''WN400 on 2024-09-01T13:45:00''] \<le> 3"
proof -
  have answer: "four_offer_client (flights_params ''BOS'' ''DEN'' 739130 739137)
      = Inr \<lparr>data = Some [example_offer ''UA'' ''100'' ''2024-09-01T08:00:00'',
                           example_offer ''DL'' ''200'' ''2024-09-01T09:30:00'',
                           example_offer ''AA'' ''300'' ''2024-09-01T11:15:00'',
                           example_offer ''WN'' ''400'' ''2024-09-01T13:45:00'']\<rparr>"
    by (simp add: four_offer_client_def)
  have descriptor: "offer_descriptor (example_offer carrier flight_number departure_at)
      = Inr (carrier @ flight_number @ '' on '' @ departure_at)"
    for carrier flight_number departure_at
    by (simp add: offer_descriptor_def example_offer_def bind_sum_def getitem_def first_def)
  show ?thesis
    by (simp add: search_flights_def Let_def bind_io_def catch_io_def emit_def lift_io_def
        return_io_def answer descriptor)
qed

section \<open>Properties of \<open>search_restaurants\<close>\<close>

lemma restaurants_loop_length:
  "length names < 3 \<Longrightarrow> length (restaurants_loop els names) \<le> 3"
proof (induction els arbitrary: names)
  case Nil
  then show ?case by simp
next
  case (Cons el rest)
  then show ?case
    by (auto simp: Let_def split: option.splits)
qed

lemma restaurants_loop_distinct:
  "distinct names \<Longrightarrow> distinct (restaurants_loop els names)"
proof (induction els arbitrary: names)
  case Nil
  then show ?case by simp
next
  case (Cons el rest)
  then show ?case
    by (auto simp: Let_def split: option.splits)
qed

lemma search_restaurants_geocoded:
  assumes "geocode w city = Inr loc"
  shows "\<exists>t names. search_restaurants w city = (t, Inr names)
           \<and> length names \<le> 3 \<and> distinct names"
  using assms
  by (auto simp: search_restaurants_def Let_def bind_io_def catch_io_def emit_def lift_io_def
      return_io_def is_Exception_def restaurants_loop_length restaurants_loop_distinct
      split: option.splits sum.splits prod.splits)

lemma search_restaurants_geocode_raises:
  assumes "geocode w city = Inl e"
  shows "search_restaurants w city = ([Geocode city], Inl e)"
  using assms
  by (simp add: search_restaurants_def bind_io_def emit_def lift_io_def)

text \<open>
  Claim C6 at the input where the code departs from it. When the geocoder raises (here a
  timeout), the call stands outside the \<open>try\<close> block, and \<open>search_restaurants\<close> raises the
  exception instead of returning an empty sequence.
\<close>

theorem search_restaurants_geocoder_timeout:
  "search_restaurants world_geocoder_down ''Denver'' =
     ([Geocode ''Denver''], Inl (OtherError ''Service timed out''))"
  by (simp add: search_restaurants_geocode_raises world_geocoder_down_def geocode_timed_out_def)

section \<open>Properties of \<open>search_events\<close>\<close>

lemma search_events_no_token:
  assumes "environ w ''EVENTBRITE_TOKEN'' = None \<or> environ w ''EVENTBRITE_TOKEN'' = Some []"
  shows "search_events w city start end ws =
           ([Log WARNING ''No Eventbrite token; skipping events.''], Inr [])"
  using assms
  by (auto simp: search_events_def bind_io_def emit_def return_io_def)

lemma event_descriptors_length:
  "event_descriptors evs = Inr descriptors \<Longrightarrow> length descriptors = length evs"
  by (induction evs arbitrary: descriptors) (auto split: sum.splits)

lemma search_events_token:
  assumes "environ w ''EVENTBRITE_TOKEN'' = Some token" and "token \<noteq> []"
  shows "search_events w city start end ws =
           (case requests_get w events_url (events_params city start end token ws) of
              Inl e \<Rightarrow>
                ([RequestsGet events_url (events_params city start end token ws),
                  Log ERROR ''Event search error: No Event Found''], Inr [])
            | Inr r \<Rightarrow>
                (case status_error r of
                   Some e \<Rightarrow>
                     ([RequestsGet events_url (events_params city start end token ws),
                       Log ERROR ''Event search error: No Event Found''], Inr [])
                 | None \<Rightarrow>
                     (case json r of
                        Inl e \<Rightarrow>
                          ([RequestsGet events_url (events_params city start end token ws),
                            Log ERROR ''Event search error: No Event Found''], Inr [])
                      | Inr b \<Rightarrow>
                          (case event_descriptors
                                  (take 3 (case events b of None \<Rightarrow> [] | Some evs \<Rightarrow> evs)) of
                             Inl e \<Rightarrow>
                               ([RequestsGet events_url (events_params city start end token ws),
                                 Log ERROR ''Event search error: No Event Found''], Inr [])
                           | Inr descriptors \<Rightarrow>
                               ([RequestsGet events_url (events_params city start end token ws)],
                                Inr descriptors)))))"
  using assms
  by (simp add: search_events_def Let_def bind_io_def catch_io_def emit_def lift_io_def
      return_io_def is_Exception_def raise_for_status_def
      split: option.splits sum.splits)

text \<open>
  Claim C7. Without an Eventbrite token (unset or empty) \<open>search_events\<close> logs a warning
  and returns the empty sequence, and its effects hold no request: the provider is not
  contacted. With a token it sends one request; when the request raises, the status is
  an error or the body does not decode, it logs an error and returns the empty
  sequence, and so it does when one of the first 3 events lacks its name or start
  time; otherwise it returns the descriptors of the first 3 events. In every case it
  returns, with at most 3 entries, and raises nothing.
\<close>

theorem search_events_degrades:
  "(environ w ''EVENTBRITE_TOKEN'' = None \<or> environ w ''EVENTBRITE_TOKEN'' = Some [] \<longrightarrow>
      search_events w city start end ws =
        ([Log WARNING ''No Eventbrite token; skipping events.''], Inr []))
   \<and> (\<forall>token. environ w ''EVENTBRITE_TOKEN'' = Some token \<and> token \<noteq> [] \<longrightarrow>
        search_events w city start end ws =
          (case requests_get w events_url (events_params city start end token ws) of
              Inl e \<Rightarrow>
                ([RequestsGet events_url (events_params city start end token ws),
                  Log ERROR ''Event search error: No Event Found''], Inr [])
            | Inr r \<Rightarrow>
                (case status_error r of
                   Some e \<Rightarrow>
                     ([RequestsGet events_url (events_params city start end token ws),
                       Log ERROR ''Event search error: No Event Found''], Inr [])
                 | None \<Rightarrow>
                     (case json r of
                        Inl e \<Rightarrow>
                          ([RequestsGet events_url (events_params city start end token ws),
                            Log ERROR ''Event search error: No Event Found''], Inr [])
                      | Inr b \<Rightarrow>
                          (case event_descriptors
                                  (take 3 (case events b of None \<Rightarrow> [] | Some evs \<Rightarrow> evs)) of
                             Inl e \<Rightarrow>
                               ([RequestsGet events_url (events_params city start end token ws),
                                 Log ERROR ''Event search error: No Event Found''], Inr [])
                           | Inr descriptors \<Rightarrow>
                               ([RequestsGet events_url (events_params city start end token ws)],
                                Inr descriptors))))))
   \<and> (\<exists>t descriptors. search_events w city start end ws = (t, Inr descriptors)
         \<and> length descriptors \<le> 3)"
proof (cases "environ w ''EVENTBRITE_TOKEN'' = None \<or> environ w ''EVENTBRITE_TOKEN'' = Some []")
  case True
  then show ?thesis
    using search_events_no_token [of w city start "end" ws] by auto
next
  case False
  then obtain token where token: "environ w ''EVENTBRITE_TOKEN'' = Some token" "token \<noteq> []"
    by auto
  note run = search_events_token [OF token, of city start "end" ws]
  have "\<exists>t descriptors. search_events w city start end ws = (t, Inr descriptors)
          \<and> length descriptors \<le> 3"
    unfolding run
    by (auto split: sum.splits option.splits dest!: event_descriptors_length)
  with False token run show ?thesis
    by simp
qed

theorem search_events_degrades_witness:
  "environ world_without_token ''EVENTBRITE_TOKEN'' = None
   \<and> search_events world_without_token ''Denver'' 738900 738907 [''skiing''] =
       ([Log WARNING ''No Eventbrite token; skipping events.''], Inr [])
   \<and> search_events example_world ''Denver'' 738900 738907 [''skiing''] =
       ([RequestsGet events_url (events_params ''Denver'' 738900 738907 ''secret'' [''skiing''])],
        Inr [''Ski Expo at 2024-01-16T10:00:00'', ''Jazz Night at 2024-01-17T20:00:00'',
             ''Beer Fest at 2024-01-18T12:00:00''])"
proof -
  have unset: "environ world_without_token ''EVENTBRITE_TOKEN'' = None"
    by (simp add: world_without_token_def example_world_def)
  have token: "environ example_world ''EVENTBRITE_TOKEN'' = Some ''secret'' \<and> ''secret'' \<noteq> []"
    by (simp add: example_world_def)
  have answer: "requests_get example_world events_url
        (events_params ''Denver'' 738900 738907 ''secret'' [''skiing''])
      = Inr \<lparr>status_error = None, json = Inr example_body\<rparr>"
    by (simp add: example_world_def example_requests_get_def)
  from search_events_degrades [of world_without_token "''Denver''" 738900 738907 "[''skiing'']"]
    unset
  have skipped: "search_events world_without_token ''Denver'' 738900 738907 [''skiing''] =
       ([Log WARNING ''No Eventbrite token; skipping events.''], Inr [])"
    by simp
  from search_events_degrades [of example_world "''Denver''" 738900 738907 "[''skiing'']"]
    token
  have "search_events example_world ''Denver'' 738900 738907 [''skiing''] =
          (case requests_get example_world events_url
                  (events_params ''Denver'' 738900 738907 ''secret'' [''skiing'']) of
              Inl e \<Rightarrow>
                ([RequestsGet events_url
                    (events_params ''Denver'' 738900 738907 ''secret'' [''skiing'']),
                  Log ERROR ''Event search error: No Event Found''], Inr [])
            | Inr r \<Rightarrow>
                (case status_error r of
                   Some e \<Rightarrow>
                     ([RequestsGet events_url
                         (events_params ''Denver'' 738900 738907 ''secret'' [''skiing'']),
                       Log ERROR ''Event search error: No Event Found''], Inr [])
                 | None \<Rightarrow>
                     (case json r of
                        Inl e \<Rightarrow>
                          ([RequestsGet events_url
                              (events_params ''Denver'' 738900 738907 ''secret'' [''skiing'']),
                            Log ERROR ''Event search error: No Event Found''], Inr [])
                      | Inr b \<Rightarrow>
                          (case event_descriptors
                                  (take 3 (case events b of None \<Rightarrow> [] | Some evs \<Rightarrow> evs)) of
                             Inl e \<Rightarrow>
                               ([RequestsGet events_url
                                   (events_params ''Denver'' 738900 738907 ''secret'' [''skiing'']),
                                 Log ERROR ''Event search error: No Event Found''], Inr [])
                           | Inr descriptors \<Rightarrow>
                               ([RequestsGet events_url
                                   (events_params ''Denver'' 738900 738907 ''secret''
                                      [''skiing''])],
                                Inr descriptors)))))"
    by blast
  then have "search_events example_world ''Denver'' 738900 738907 [''skiing''] =
       ([RequestsGet events_url (events_params ''Denver'' 738900 738907 ''secret'' [''skiing''])],
        Inr [''Ski Expo at 2024-01-16T10:00:00'', ''Jazz Night at 2024-01-17T20:00:00'',
             ''Beer Fest at 2024-01-18T12:00:00''])"
    unfolding answer
    by (simp add: example_body_def event_descriptor_def bind_sum_def getitem_def)
  with unset skipped show ?thesis
    by simp
qed

section \<open>Properties of \<open>build_itinerary_text\<close>\<close>

lemma join_comma_entries:
  "join sep (entry # others) = entry @ concat (map (\<lambda>next_entry. sep @ next_entry) others)"
  by (induction sep "entry # others" arbitrary: entry others rule: join.induct) simp_all

lemma join_fact_section:
  "(if facts \<noteq> [] then join '', '' facts else ''none'') = fact_section facts"
proof (cases facts)
  case Nil
  then show ?thesis by (simp add: fact_section_def)
next
  case (Cons entry others)
  show ?thesis
    unfolding Cons fact_section_def join_comma_entries by simp
qed

text \<open>
  Claim C8. The prompt that \<open>build_itinerary_text\<close> builds and sends to the narrative
  generator renders each of the flights, events and restaurants sections as the word
  \<open>none\<close> when the sequence is empty and as its entries joined by a comma and a space
  otherwise.
\<close>

theorem itinerary_prompt_sections:
  "itinerary_prompt req flights event_list restaurants =
     ''Plan a friendly, detailed itinerary for a trip from '' @ origin req @ '' to ''
     @ destination req @ '', departing '' @ str_opt_date (start_date req)
     @ '' and returning '' @ str_opt_date (end_date req) @ ''. ''
     @ ''Flights: '' @ fact_section flights @ ''. ''
     @ ''Events: '' @ fact_section event_list @ ''. ''
     @ ''Restaurants: '' @ fact_section restaurants @ ''. ''
     @ ''Do not return JSON. Write clear day-by-day bullet points.''
     @ ''Only give the itinerary for the trip, do not ask anything back.''
     @ ''Do not use Decorators like *'' @ [apostrophe]
     @ ''s, instead make use of whitespaces to make it look cleaner''
   \<and> fact_section [] = ''none''
   \<and> build_itinerary_text w req flights event_list restaurants =
       ([AgentRun (agent_model w) ''You are a helpful travel planner.''
           (itinerary_prompt req flights event_list restaurants)],
        run_sync_text w (agent_model w) ''You are a helpful travel planner.''
           (itinerary_prompt req flights event_list restaurants))"
proof -
  have sections: "itinerary_prompt req flights event_list restaurants =
     ''Plan a friendly, detailed itinerary for a trip from '' @ origin req @ '' to ''
     @ destination req @ '', ''
     @ ''departing '' @ str_opt_date (start_date req) @ '' and returning ''
     @ str_opt_date (end_date req) @ ''. ''
     @ ''Flights: '' @ fact_section flights @ ''. ''
     @ ''Events: '' @ fact_section event_list @ ''. ''
     @ ''Restaurants: '' @ fact_section restaurants
     @ ''. ''
     @ ''Do not return JSON. Write clear day-by-day bullet points.''
     @ ''Only give the itinerary for the trip, do not ask anything back.''
     @ ''Do not use Decorators like *'' @ [apostrophe]
     @ ''s, instead make use of whitespaces to make it look cleaner''"
    unfolding itinerary_prompt_def join_fact_section ..
  have sent: "build_itinerary_text w req flights event_list restaurants =
       ([AgentRun (agent_model w) ''You are a helpful travel planner.''
           (itinerary_prompt req flights event_list restaurants)],
        run_sync_text w (agent_model w) ''You are a helpful travel planner.''
           (itinerary_prompt req flights event_list restaurants))"
    by (simp add: build_itinerary_text_def Let_def bind_io_def emit_def lift_io_def)
  have empty: "fact_section [] = ''none''"
    by (simp add: fact_section_def)
  from sections sent empty show ?thesis
    by simp
qed

theorem itinerary_prompt_sections_witness:
  "itinerary_prompt request_normalized [] [''Ski Expo at 2024-01-16T10:00:00'']
       [''Linger'', ''Root Down'', ''Guard and Grace''] =
     ''Plan a friendly, detailed itinerary for a trip from Boston to Denver, ''
     @ ''departing 2024-01-15 and returning 2024-01-22. ''
     @ ''Flights: none. ''
     @ ''Events: Ski Expo at 2024-01-16T10:00:00. ''
     @ ''Restaurants: Linger, Root Down, Guard and Grace. ''
     @ ''Do not return JSON. Write clear day-by-day bullet points.''
     @ ''Only give the itinerary for the trip, do not ask anything back.''
     @ ''Do not use Decorators like *'' @ [apostrophe]
     @ ''s, instead make use of whitespaces to make it look cleaner''"
proof -
  have dates: "str_opt_date (start_date request_normalized) = ''2024-01-15''"
    "str_opt_date (end_date request_normalized) = ''2024-01-22''"
    by code_simp+
  have places: "origin request_normalized = ''Boston''"
    "destination request_normalized = ''Denver''"
    by (simp_all add: request_normalized_def request_without_dates_def)
  have sections: "fact_section [] = ''none''"
    "fact_section [''Ski Expo at 2024-01-16T10:00:00''] = ''Ski Expo at 2024-01-16T10:00:00''"
    "fact_section [''Linger'', ''Root Down'', ''Guard and Grace'']
       = ''Linger, Root Down, Guard and Grace''"
    by (simp_all add: fact_section_def)
  from itinerary_prompt_sections [of request_normalized "[]"
      "[''Ski Expo at 2024-01-16T10:00:00'']" "[''Linger'', ''Root Down'', ''Guard and Grace'']"]
  show ?thesis
    unfolding dates places sections by simp
qed

section \<open>The budget\<close>

lemma ensure_dates_budget:
  "ensure_dates today (req\<lparr>budget := b\<rparr>) =
     (fst (ensure_dates today req),
      map_sum id (\<lambda>r. r\<lparr>budget := b\<rparr>) (snd (ensure_dates today req)))"
proof (cases "start_date req")
  case None
  note start = this
  show ?thesis
  proof (cases "end_date req")
    case None
    with start show ?thesis
      by (simp add: ensure_dates_none_present split: sum.splits)
  next
    case (Some e0)
    with start show ?thesis
      by (simp add: ensure_dates_end_present split: sum.splits)
  qed
next
  case (Some s0)
  note start = this
  show ?thesis
  proof (cases "end_date req")
    case None
    with start show ?thesis
      by (simp add: ensure_dates_start_present split: sum.splits)
  next
    case (Some e0)
    with start show ?thesis
      by (simp add: ensure_dates_both_present)
  qed
qed

lemma itinerary_prompt_budget:
  "itinerary_prompt (req\<lparr>budget := b\<rparr>) flights event_list restaurants =
   itinerary_prompt req flights event_list restaurants"
  by (simp add: itinerary_prompt_def)

lemma build_itinerary_text_budget:
  "build_itinerary_text w (req\<lparr>budget := b\<rparr>) flights event_list restaurants =
   build_itinerary_text w req flights event_list restaurants"
  by (simp add: build_itinerary_text_def itinerary_prompt_budget)

lemma resolve_codes_budget:
  "resolve_codes w (req\<lparr>budget := b\<rparr>) = resolve_codes w req"
  by (simp add: resolve_codes_def)

lemma bind_io_related:
  assumes "fst m' = fst m" and "snd m' = map_sum id g (snd m)"
    and "\<And>a. f' (g a) = f a"
  shows "bind_io m' f' = bind_io m f"
proof -
  obtain t r where m: "m = (t, r)" by (cases m)
  with assms(1,2) have m': "m' = (t, map_sum id g r)" by (cases m') simp
  show ?thesis
    unfolding m m' using assms(3) by (cases r) (simp_all add: bind_io_def)
qed

lemma main_after_parse_budget:
  "main_after_parse w (req\<lparr>budget := b\<rparr>) = main_after_parse w req"
  unfolding main_after_parse_def
  by (rule bind_io_related [where g = "\<lambda>r. r\<lparr>budget := b\<rparr>"])
     (simp_all add: ensure_dates_budget resolve_codes_budget build_itinerary_text_budget
        cong: option.case_cong prod.case_cong)

text \<open>
  Claim C9. Two requests that differ only in \<open>budget\<close> give the same run from
  normalization on: the same effects in the same order (so the same log, the same
  queries to the flight, event, geocoding and restaurant providers, the same synthesis
  prompt and the same output) and the same outcome. The resolved codes, the synthesis
  prompt and the synthesis call are the same, and normalization returns requests that
  again differ only in \<open>budget\<close>. The searches take no request at all.
\<close>

theorem budget_not_used:
  assumes "req2 = req1\<lparr>budget := budget req2\<rparr>"
  shows "main_after_parse w req2 = main_after_parse w req1
         \<and> resolve_codes w req2 = resolve_codes w req1
         \<and> itinerary_prompt req2 flights event_list restaurants
             = itinerary_prompt req1 flights event_list restaurants
         \<and> build_itinerary_text w req2 flights event_list restaurants
             = build_itinerary_text w req1 flights event_list restaurants
         \<and> fst (ensure_dates today req2) = fst (ensure_dates today req1)
         \<and> snd (ensure_dates today req2)
             = map_sum id (\<lambda>r. r\<lparr>budget := budget req2\<rparr>) (snd (ensure_dates today req1))"
proof -
  note main_after_parse_budget [where req = req1 and b = "budget req2"]
    resolve_codes_budget [where req = req1 and b = "budget req2"]
    itinerary_prompt_budget [where req = req1 and b = "budget req2"]
    build_itinerary_text_budget [where req = req1 and b = "budget req2"]
    ensure_dates_budget [where req = req1 and b = "budget req2"]
  then show ?thesis
    unfolding assms [symmetric] by simp
qed

theorem budget_not_used_witness:
  "request_without_dates\<lparr>budget := Some 50\<rparr> \<noteq> request_without_dates
   \<and> main_after_parse example_world (request_without_dates\<lparr>budget := Some 50\<rparr>)
       = main_after_parse example_world request_without_dates"
proof -
  have differ: "request_without_dates\<lparr>budget := Some 50\<rparr>
      = request_without_dates\<lparr>budget := budget (request_without_dates\<lparr>budget := Some 50\<rparr>)\<rparr>"
    by simp
  have "request_without_dates\<lparr>budget := Some 50\<rparr> \<noteq> request_without_dates"
    by (simp add: request_without_dates_def)
  with budget_not_used [OF differ, of example_world] show ?thesis
    by simp
qed

section \<open>A complete run\<close>

text \<open>
  The example world on a request without dates, run on 2024-01-01: the dates default to
  2024-01-15 and 2024-01-22, both places resolve, each provider is queried once, and the
  narrative is printed.
\<close>

lemma main_example_run:
  "main example_world ''Boston to Denver, skiing'' =
     ([Input ''Enter your travel request: '',
       AgentRun ''google-gla:gemini-2.0-flash'' extraction_system_prompt
         ''Boston to Denver, skiing'',
       Log INFO ''No start_date: defaulting to 2024-01-15'',
       Log INFO ''No end_date: defaulting to 2024-01-22'',
       ClientInit None None,
       FlightOffersSearch (flights_params ''BOS'' ''DEN'' 738900 738907),
       RequestsGet events_url (events_params ''Denver'' 738900 738907 ''secret'' [''skiing'']),
       Geocode ''Denver'',
       RequestsGet overpass_url
         [(''data'', overpass_query \<lparr>latitude = ''39.7392364'', longitude = ''-104.984862''\<rparr>)],
       AgentRun ''google-gla:gemini-2.0-flash'' ''You are a helpful travel planner.''
         (itinerary_prompt request_normalized
            [''UA100 on 2024-01-15T08:00:00'']
            [''Ski Expo at 2024-01-16T10:00:00'', ''Jazz Night at 2024-01-17T20:00:00'',
             ''Beer Fest at 2024-01-18T12:00:00'']
            [''Linger'', ''Root Down'', ''Guard and Grace'']),
       Print ([CHR 0x0A] @ ''--- Your Itinerary ---'' @ [CHR 0x0A]),
       Print ''Day 1: arrive in Denver.''],
      Inr ())"
  by code_simp

end
